theory Spec2Isabelle
  imports Complex_Main "HOL-Library.Sublist"
begin

section \<open>Datatool: the command dispatcher of \<^verbatim>\<open>datatool/analyzer.py\<close>\<close>

text \<open>
  The development embeds \<^verbatim>\<open>DataAnalyzer.run\<close> and what it calls. Three layers:
  \<^item> Python text primitives the dispatcher uses (\<^verbatim>\<open>str.strip\<close>, \<^verbatim>\<open>str.split\<close>,
    \<^verbatim>\<open>re.match\<close> on the one pattern of the source, \<^verbatim>\<open>int\<close>, \<^verbatim>\<open>float\<close>);
  \<^item> the part of the dataframe library whose behaviour the dispatcher's results depend on
    (column lookup, \<^verbatim>\<open>head\<close>, \<^verbatim>\<open>tail\<close>, comparison of a column with a scalar, boolean
    row selection, grouping with the numeric reductions);
  \<^item> the dispatcher itself, branch by branch in the order of the source.

  Scope of the embedding.
  A Python string is an Isabelle \<open>string\<close>; the command line is read as ASCII, so the
  Unicode-aware classes of Python (\<^verbatim>\<open>\w\<close>, whitespace, digits) are their ASCII members, and
  the two pictographs of the messages are the bytes of their UTF-8 encoding.
  Numbers are exact reals: rounding and overflow of binary floating point are not
  part of the model. Library calls whose value the dispatcher only passes on
  (\<^verbatim>\<open>info\<close>, \<^verbatim>\<open>describe\<close>, \<^verbatim>\<open>corr\<close>, \<^verbatim>\<open>cov\<close>, the single-column statistics, reductions
  over non-numeric groups) are not evaluated: the outcome records the call that was
  made. A chart is recorded on the display surface when it is handed over; what the
  plotting library does with its data is outside the model.
\<close>

subsection \<open>Python text primitives\<close>

text \<open>\<^verbatim>\<open>str.isspace\<close> on ASCII: tab, line feed, vertical tab, form feed, carriage return,
  the four separators 0x1C..0x1F and the space.\<close>

definition isspace :: "char \<Rightarrow> bool" where
  "isspace c = (let n = (of_char c :: nat) in (9 \<le> n \<and> n \<le> 13) \<or> (28 \<le> n \<and> n \<le> 32))"

text \<open>\<^verbatim>\<open>\w\<close> on ASCII: letters, digits and the underscore.\<close>

definition isdigit :: "char \<Rightarrow> bool" where
  "isdigit c = (let n = (of_char c :: nat) in 48 \<le> n \<and> n \<le> 57)"

definition isword :: "char \<Rightarrow> bool" where
  "isword c = (let n = (of_char c :: nat) in
     (48 \<le> n \<and> n \<le> 57) \<or> (65 \<le> n \<and> n \<le> 90) \<or> n = 95 \<or> (97 \<le> n \<and> n \<le> 122))"

definition digit_val :: "char \<Rightarrow> nat" where
  "digit_val c = of_char c - 48"

definition lower :: "char \<Rightarrow> char" where
  "lower c = (let n = (of_char c :: nat) in if 65 \<le> n \<and> n \<le> 90 then char_of (n + 32) else c)"

text \<open>\<^verbatim>\<open>s.strip()\<close>\<close>

definition strip :: "string \<Rightarrow> string" where
  "strip s = rev (dropWhile isspace (rev (dropWhile isspace s)))"

text \<open>\<^verbatim>\<open>s.split(",")\<close>: always at least one field.\<close>

fun split_comma :: "string \<Rightarrow> string list" where
  "split_comma [] = [[]]"
| "split_comma (c # cs) =
     (if c = CHR '','' then [] # split_comma cs
      else (case split_comma cs of
              [] \<Rightarrow> [[c]]
            | p # ps \<Rightarrow> (c # p) # ps))"

text \<open>
  \<^verbatim>\<open>re.match(r"(\w+)(?:\((.*)\))?$", s)\<close>, returning \<^verbatim>\<open>match.groups()\<close>.
  The greedy \<^verbatim>\<open>\w+\<close> can only end where the word characters end, since what follows it
  is an opening parenthesis or the end. \<^verbatim>\<open>$\<close> matches at the end and before a line feed
  that ends the string; the dot matches no line feed, so the text between the first
  opening parenthesis and the final closing one must hold none.
\<close>

definition re_match :: "string \<Rightarrow> (string \<times> string option) option" where
  "re_match s =
     (let s' = (if s \<noteq> [] \<and> last s = CHR 0x0A then butlast s else s);
          func = takeWhile isword s';
          rest = dropWhile isword s'
      in if func = [] then None
         else if rest = [] then Some (func, None)
         else if 2 \<le> length rest \<and> hd rest = CHR ''('' \<and> last rest = CHR '')''
                 \<and> CHR 0x0A \<notin> set (butlast (tl rest))
              then Some (func, Some (butlast (tl rest)))
         else None)"

text \<open>Line 46:
  \<^verbatim>\<open>args = [] if argstr is None or argstr.strip() == "" else [a.strip() for a in argstr.split(",")]\<close>\<close>

definition parse_args :: "string option \<Rightarrow> string list" where
  "parse_args argstr =
     (case argstr of
        None \<Rightarrow> []
      | Some a \<Rightarrow> if strip a = [] then [] else map strip (split_comma a))"

text \<open>
  A run of decimal digits in which single underscores may stand between digits, as
  \<^verbatim>\<open>int\<close> and \<^verbatim>\<open>float\<close> read it: the value, the number of digits and the rest of the text.
  \<open>take_digits\<close> is entered after a digit.
\<close>

fun take_digits :: "string \<Rightarrow> nat \<Rightarrow> nat \<Rightarrow> nat \<times> nat \<times> string" where
  "take_digits [] v k = (v, k, [])"
| "take_digits (c # cs) v k =
     (if isdigit c then take_digits cs (10 * v + digit_val c) (Suc k)
      else if c = CHR ''_'' then
        (case cs of
           [] \<Rightarrow> (v, k, c # cs)
         | d # ds \<Rightarrow> if isdigit d then take_digits ds (10 * v + digit_val d) (Suc k)
                     else (v, k, c # cs))
      else (v, k, c # cs))"

definition digitpart :: "string \<Rightarrow> (nat \<times> nat \<times> string) option" where
  "digitpart s =
     (case s of
        [] \<Rightarrow> None
      | c # cs \<Rightarrow> if isdigit c then Some (take_digits cs (digit_val c) 1) else None)"

text \<open>\<^verbatim>\<open>int(s)\<close> in base ten; \<open>None\<close> is the \<^verbatim>\<open>ValueError\<close>. (The limit some interpreter
  versions put on the number of digits is not modelled.)\<close>

definition unsigned_int :: "string \<Rightarrow> nat option" where
  "unsigned_int s =
     (case digitpart s of
        Some (v, k, []) \<Rightarrow> Some v
      | _ \<Rightarrow> None)"

definition py_int :: "string \<Rightarrow> int option" where
  "py_int s =
     (case strip s of
        [] \<Rightarrow> None
      | c # cs \<Rightarrow>
          if c = CHR ''-'' then map_option (\<lambda>n. - int n) (unsigned_int cs)
          else if c = CHR ''+'' then map_option int (unsigned_int cs)
          else map_option int (unsigned_int (c # cs)))"

text \<open>A Python float: a finite number (kept exact), an infinity or the not-a-number.\<close>

datatype pyfloat = Fin real | PosInf | NegInf | NaNf

text \<open>The exponent part of a float literal, applied to the mantissa read so far.\<close>

definition exponent :: "real \<Rightarrow> string \<Rightarrow> real option" where
  "exponent x r =
     (case r of
        [] \<Rightarrow> Some x
      | e # r' \<Rightarrow>
          if e = CHR ''e'' \<or> e = CHR ''E'' then
            (case r' of
               [] \<Rightarrow> None
             | g # r'' \<Rightarrow>
                 if g = CHR ''-'' then
                   (case digitpart r'' of Some (n, k, []) \<Rightarrow> Some (x / 10 ^ n) | _ \<Rightarrow> None)
                 else if g = CHR ''+'' then
                   (case digitpart r'' of Some (n, k, []) \<Rightarrow> Some (x * 10 ^ n) | _ \<Rightarrow> None)
                 else
                   (case digitpart r' of Some (n, k, []) \<Rightarrow> Some (x * 10 ^ n) | _ \<Rightarrow> None))
          else None)"

text \<open>The unsigned decimal forms: \<^verbatim>\<open>12\<close>, \<^verbatim>\<open>12.\<close>, \<^verbatim>\<open>12.5\<close>, \<^verbatim>\<open>.5\<close>, each with an optional
  exponent.\<close>

definition decimal :: "string \<Rightarrow> real option" where
  "decimal u =
     (case digitpart u of
        Some (m, k, r1) \<Rightarrow>
          (case r1 of
             [] \<Rightarrow> Some (real m)
           | d # r2 \<Rightarrow>
               if d = CHR ''.'' then
                 (case digitpart r2 of
                    Some (f, j, r3) \<Rightarrow> exponent (real m + real f / 10 ^ j) r3
                  | None \<Rightarrow> exponent (real m) r2)
               else exponent (real m) r1)
      | None \<Rightarrow>
          (case u of
             [] \<Rightarrow> None
           | d # r2 \<Rightarrow>
               if d = CHR ''.'' then
                 (case digitpart r2 of
                    Some (f, j, r3) \<Rightarrow> exponent (real f / 10 ^ j) r3
                  | None \<Rightarrow> None)
               else None))"

text \<open>\<^verbatim>\<open>float(s)\<close>; \<open>None\<close> is the \<^verbatim>\<open>ValueError\<close>.\<close>

definition unsigned_float :: "bool \<Rightarrow> string \<Rightarrow> pyfloat option" where
  "unsigned_float neg u =
     (let w = map lower u in
      if w = ''inf'' \<or> w = ''infinity'' then Some (if neg then NegInf else PosInf)
      else if w = ''nan'' then Some NaNf
      else map_option (\<lambda>x. Fin (if neg then - x else x)) (decimal u))"

definition py_float :: "string \<Rightarrow> pyfloat option" where
  "py_float s =
     (case strip s of
        [] \<Rightarrow> None
      | c # cs \<Rightarrow>
          if c = CHR ''-'' then unsigned_float True cs
          else if c = CHR ''+'' then unsigned_float False cs
          else unsigned_float False (c # cs))"

subsection \<open>The table\<close>

text \<open>
  The loaded dataset as the dataframe library holds it: an index of row labels and
  named columns, each with one storage type. A column read from a delimited text file
  holds booleans, integers, floats (a missing entry is the not-a-number) or text (a
  missing entry likewise). The labels of the columns are distinct, as the loader makes
  them.
\<close>

datatype dtype = BoolT | Int64 | Float64 | Object

datatype column =
    BoolCol "bool list"
  | IntCol "int list"
  | FloatCol "real option list"
  | ObjCol "string option list"

record table =
  index :: "nat list"
  cols :: "(string \<times> column) list"

text \<open>One entry of a column, as a value of its own. \<open>Root x\<close> is the square root of \<open>x\<close>,
  kept as it is so that the numbers stay exact; only a standard deviation is one.\<close>

datatype cell = Flag bool | Num real | Str string | NaN | Root real

fun dtype_of :: "column \<Rightarrow> dtype" where
  "dtype_of (BoolCol xs) = BoolT"
| "dtype_of (IntCol xs) = Int64"
| "dtype_of (FloatCol xs) = Float64"
| "dtype_of (ObjCol xs) = Object"

text \<open>\<^verbatim>\<open>dtype.kind\<close>\<close>

fun kind :: "dtype \<Rightarrow> char" where
  "kind BoolT = CHR ''b''"
| "kind Int64 = CHR ''i''"
| "kind Float64 = CHR ''f''"
| "kind Object = CHR ''O''"

fun cells_of :: "column \<Rightarrow> cell list" where
  "cells_of (BoolCol xs) = map Flag xs"
| "cells_of (IntCol xs) = map (\<lambda>x. Num (real_of_int x)) xs"
| "cells_of (FloatCol xs) = map (\<lambda>x. case x of None \<Rightarrow> NaN | Some r \<Rightarrow> Num r) xs"
| "cells_of (ObjCol xs) = map (\<lambda>x. case x of None \<Rightarrow> NaN | Some s \<Rightarrow> Str s) xs"

text \<open>\<^verbatim>\<open>df.columns\<close> and \<^verbatim>\<open>df.shape\<close>\<close>

definition columns :: "table \<Rightarrow> string list" where
  "columns t = map fst (cols t)"

definition nrows :: "table \<Rightarrow> nat" where
  "nrows t = length (index t)"

text \<open>Positional slicing \<^verbatim>\<open>xs[a:b]\<close> with bounds already normalised.\<close>

definition slice :: "nat \<Rightarrow> nat \<Rightarrow> 'a list \<Rightarrow> 'a list" where
  "slice a b xs = take (b - a) (drop a xs)"

fun col_slice :: "nat \<Rightarrow> nat \<Rightarrow> column \<Rightarrow> column" where
  "col_slice a b (BoolCol xs) = BoolCol (slice a b xs)"
| "col_slice a b (IntCol xs) = IntCol (slice a b xs)"
| "col_slice a b (FloatCol xs) = FloatCol (slice a b xs)"
| "col_slice a b (ObjCol xs) = ObjCol (slice a b xs)"

text \<open>Python's reading of a slice bound \<open>i\<close> on a sequence of length \<open>n\<close>: a negative bound
  counts from the end, and every bound is clipped to the sequence.\<close>

definition clamp_index :: "int \<Rightarrow> nat \<Rightarrow> nat" where
  "clamp_index i n = (if i < 0 then n - nat (- i) else min (nat i) n)"

text \<open>\<^verbatim>\<open>df.iloc[a:b]\<close>\<close>

definition iloc :: "nat \<Rightarrow> nat \<Rightarrow> table \<Rightarrow> table" where
  "iloc a b t = t\<lparr>index := slice a b (index t),
                  cols := map (\<lambda>(c, x). (c, col_slice a b x)) (cols t)\<rparr>"

text \<open>\<^verbatim>\<open>df.head(n)\<close> is \<^verbatim>\<open>self.iloc[:n]\<close>; \<^verbatim>\<open>df.tail(n)\<close> is \<^verbatim>\<open>self.iloc[0:0]\<close> when \<open>n\<close> is
  zero and \<^verbatim>\<open>self.iloc[-n:]\<close> otherwise.\<close>

definition df_head :: "int \<Rightarrow> table \<Rightarrow> table" where
  "df_head n t = iloc 0 (clamp_index n (nrows t)) t"

definition df_tail :: "int \<Rightarrow> table \<Rightarrow> table" where
  "df_tail n t = (if n = 0 then iloc 0 0 t else iloc (clamp_index (- n) (nrows t)) (nrows t) t)"

text \<open>The exceptions of the model.\<close>

datatype exn = KeyError string | TypeError | AttributeError string

text \<open>\<^verbatim>\<open>df[col]\<close>: the column, or \<^verbatim>\<open>KeyError\<close> when no column has the label.\<close>

definition getitem :: "table \<Rightarrow> string \<Rightarrow> exn + column" where
  "getitem t c = (case map_of (cols t) c of None \<Rightarrow> Inl (KeyError c) | Some x \<Rightarrow> Inr x)"

text \<open>Boolean row selection \<^verbatim>\<open>df[mask]\<close>: the rows at which the mask holds, in order.\<close>

definition select :: "bool list \<Rightarrow> 'a list \<Rightarrow> 'a list" where
  "select m xs = map snd (filter fst (zip m xs))"

fun col_select :: "bool list \<Rightarrow> column \<Rightarrow> column" where
  "col_select m (BoolCol xs) = BoolCol (select m xs)"
| "col_select m (IntCol xs) = IntCol (select m xs)"
| "col_select m (FloatCol xs) = FloatCol (select m xs)"
| "col_select m (ObjCol xs) = ObjCol (select m xs)"

definition select_rows :: "bool list \<Rightarrow> table \<Rightarrow> table" where
  "select_rows m t = t\<lparr>index := select m (index t),
                        cols := map (\<lambda>(c, x). (c, col_select m x)) (cols t)\<rparr>"

subsection \<open>Comparing a column with a scalar\<close>

datatype cmpop = Eq | Ne | Gt | Lt | Ge | Le

text \<open>The right-hand side of the comparison: a float, or the raw text.\<close>

datatype scalar = SFloat pyfloat | SText string

text \<open>A finite number against a float, as IEEE 754 orders them: every comparison with
  the not-a-number is false but \<open>\<noteq>\<close>.\<close>

fun num_cmp :: "cmpop \<Rightarrow> real \<Rightarrow> pyfloat \<Rightarrow> bool" where
  "num_cmp Eq x (Fin y) = (x = y)"
| "num_cmp Ne x (Fin y) = (x \<noteq> y)"
| "num_cmp Gt x (Fin y) = (x > y)"
| "num_cmp Lt x (Fin y) = (x < y)"
| "num_cmp Ge x (Fin y) = (x \<ge> y)"
| "num_cmp Le x (Fin y) = (x \<le> y)"
| "num_cmp Ne x PosInf = True"
| "num_cmp Lt x PosInf = True"
| "num_cmp Le x PosInf = True"
| "num_cmp Ne x NegInf = True"
| "num_cmp Gt x NegInf = True"
| "num_cmp Ge x NegInf = True"
| "num_cmp Ne x NaNf = True"
| "num_cmp opr x v = False"

text \<open>Python orders strings by code point, a proper prefix first.\<close>

fun str_lt :: "string \<Rightarrow> string \<Rightarrow> bool" where
  "str_lt [] [] = False"
| "str_lt [] (y # ys) = True"
| "str_lt (x # xs) [] = False"
| "str_lt (x # xs) (y # ys) =
     (if (of_char x :: nat) < of_char y then True
      else if x = y then str_lt xs ys
      else False)"

fun str_cmp :: "cmpop \<Rightarrow> string \<Rightarrow> string \<Rightarrow> bool" where
  "str_cmp Eq s t = (s = t)"
| "str_cmp Ne s t = (s \<noteq> t)"
| "str_cmp Gt s t = str_lt t s"
| "str_cmp Lt s t = str_lt s t"
| "str_cmp Ge s t = (s = t \<or> str_lt t s)"
| "str_cmp Le s t = (s = t \<or> str_lt s t)"

text \<open>
  One entry against the scalar. A missing entry satisfies \<open>\<noteq>\<close> only. A number and a
  text are never equal; ordering them is the caller's error, raised below for the
  whole column, and is given as false here.
\<close>

fun cell_cmp :: "cmpop \<Rightarrow> cell \<Rightarrow> scalar \<Rightarrow> bool" where
  "cell_cmp opr NaN v = (opr = Ne)"
| "cell_cmp opr (Num x) (SFloat v) = num_cmp opr x v"
| "cell_cmp opr (Flag b) (SFloat v) = num_cmp opr (if b then 1 else 0) v"
| "cell_cmp opr (Str s) (SText t) = str_cmp opr s t"
| "cell_cmp opr c v = (opr = Ne)"

text \<open>
  \<^verbatim>\<open>series <op> scalar\<close>. A numeric column (boolean, integer, float) against a text is the
  library's invalid comparison: all false for \<open>==\<close>, all true for \<open>!=\<close>, and \<^verbatim>\<open>TypeError\<close>
  for the four orderings. A text column against a float is compared entry by entry as
  Python objects: equality never holds, and ordering a text entry against a number
  raises \<^verbatim>\<open>TypeError\<close>.
\<close>

definition series_cmp :: "cmpop \<Rightarrow> column \<Rightarrow> scalar \<Rightarrow> exn + bool list" where
  "series_cmp opr s v =
     (if opr \<noteq> Eq \<and> opr \<noteq> Ne \<and>
         (case v of
            SText t \<Rightarrow> dtype_of s \<noteq> Object
          | SFloat f \<Rightarrow> dtype_of s = Object \<and> (\<exists>c \<in> set (cells_of s). c \<noteq> NaN))
      then Inl TypeError
      else Inr (map (\<lambda>c. cell_cmp opr c v) (cells_of s)))"

subsection \<open>Grouping\<close>

text \<open>The order of the group keys: within one storage type the order of the values;
  across types (which one column never mixes) booleans, numbers, texts.\<close>

fun cell_le :: "cell \<Rightarrow> cell \<Rightarrow> bool" where
  "cell_le (Flag a) (Flag b) = (if a then b else True)"
| "cell_le (Flag a) c = True"
| "cell_le (Num x) (Flag b) = False"
| "cell_le (Num x) (Num y) = (x \<le> y)"
| "cell_le (Num x) c = True"
| "cell_le (Str s) (Str t) = (s = t \<or> str_lt s t)"
| "cell_le (Str s) (Flag b) = False"
| "cell_le (Str s) (Num y) = False"
| "cell_le (Str s) c = True"
| "cell_le c d = (c = d)"

fun insert_key :: "cell \<Rightarrow> cell list \<Rightarrow> cell list" where
  "insert_key k [] = [k]"
| "insert_key k (x # xs) = (if cell_le k x then k # x # xs else x # insert_key k xs)"

definition sort_keys :: "cell list \<Rightarrow> cell list" where
  "sort_keys ks = foldr insert_key ks []"

text \<open>\<^verbatim>\<open>df.groupby(col)\<close> with its defaults: the distinct values of the column in sorted
  order, missing entries dropped.\<close>

definition group_keys :: "column \<Rightarrow> cell list" where
  "group_keys g = sort_keys (remdups (filter (\<lambda>c. c \<noteq> NaN) (cells_of g)))"

text \<open>The entries of the target column on the rows of one group.\<close>

definition group_cells :: "column \<Rightarrow> column \<Rightarrow> cell \<Rightarrow> cell list" where
  "group_cells g x k = map snd (filter (\<lambda>(c, v). c = k) (zip (cells_of g) (cells_of x)))"

text \<open>The numbers among the entries: reductions skip missing entries.\<close>

fun numbers :: "cell list \<Rightarrow> real list" where
  "numbers [] = []"
| "numbers (Num x # cs) = x # numbers cs"
| "numbers (c # cs) = numbers cs"

definition mean :: "real list \<Rightarrow> real" where
  "mean xs = sum_list xs / real (length xs)"

definition median :: "real list \<Rightarrow> real" where
  "median xs =
     (let s = sort xs; n = length xs
      in if odd n then s ! (n div 2) else (s ! (n div 2 - 1) + s ! (n div 2)) / 2)"

text \<open>The sample variance, with one degree of freedom removed.\<close>

definition var :: "real list \<Rightarrow> real" where
  "var xs = sum_list (map (\<lambda>x. (x - mean xs)\<^sup>2) xs) / real (length xs - 1)"

text \<open>
  \<^verbatim>\<open>getattr(grouped, agg)()\<close> on the numbers of one group. On no numbers the sum is zero
  and the count is zero; the other reductions give the not-a-number, the variance and
  the deviation also on a single number. A name that is no method is
  \<^verbatim>\<open>AttributeError\<close>; the dispatcher admits none.
\<close>

definition series_agg :: "string \<Rightarrow> real list \<Rightarrow> exn + cell" where
  "series_agg agg xs =
     (if agg = ''count'' then Inr (Num (real (length xs)))
      else if agg = ''sum'' then Inr (Num (sum_list xs))
      else if agg = ''mean'' then Inr (if xs = [] then NaN else Num (mean xs))
      else if agg = ''min'' then Inr (if xs = [] then NaN else Num (fold min (tl xs) (hd xs)))
      else if agg = ''max'' then Inr (if xs = [] then NaN else Num (fold max (tl xs) (hd xs)))
      else if agg = ''median'' then Inr (if xs = [] then NaN else Num (median xs))
      else if agg = ''var'' then Inr (if length xs < 2 then NaN else Num (var xs))
      else if agg = ''std'' then Inr (if length xs < 2 then NaN else Root (var xs))
      else Inl (AttributeError agg))"

text \<open>The first exception of a list of results, or all the values.\<close>

fun all_ok :: "(exn + 'a) list \<Rightarrow> exn + 'a list" where
  "all_ok [] = Inr []"
| "all_ok (Inl e # rs) = Inl e"
| "all_ok (Inr x # rs) = (case all_ok rs of Inl e \<Rightarrow> Inl e | Inr xs \<Rightarrow> Inr (x # xs))"

subsection \<open>Results, outcomes and the analyzer\<close>

text \<open>What \<^verbatim>\<open>run\<close> hands back when the branch is evaluated by the model.\<close>

datatype "value" =
    VStr string
  | VFrame table
  | VShape nat nat
  | VNames "string list"
  | VDtypes "(string \<times> dtype) list"
  | VCounts "(string \<times> nat) list"
  | VGrouped "(cell \<times> cell) list"

text \<open>A library call the model does not evaluate: the call and its operands.\<close>

datatype libcall =
    FrameOp string table
  | SeriesOp string column
  | GroupOp string "(cell \<times> cell list) list"

text \<open>
  The outcome of one \<^verbatim>\<open>run\<close>: a value returned, an exception that reaches the caller, or
  the outcome of the recorded library call, whatever it is (a value or an exception).
\<close>

datatype outcome = Returned "value" | Raised exn | Delegated libcall

text \<open>A chart as it is handed to the display surface.\<close>

record chart =
  chart_kind :: string
  chart_data :: "string list"
  chart_title :: string
  chart_xlabel :: "string option"

text \<open>The analyzer: \<^verbatim>\<open>self.df\<close>, and the display surface with the charts shown so far.\<close>

record analyzer =
  df :: table
  display :: "chart list"

subsection \<open>Messages\<close>

definition cross :: string where
  "cross = [CHR 0xE2, CHR 0x9D, CHR 0x8C]"

definition bars :: string where
  "bars = [CHR 0xF0, CHR 0x9F, CHR 0x93, CHR 0x8A]"

definition quoted :: "string \<Rightarrow> string" where
  "quoted s = CHR 0x27 # s @ [CHR 0x27]"

definition column_not_found :: "string \<Rightarrow> string" where
  "column_not_found col = cross @ '' Column '' @ quoted col @ '' not found.''"

definition not_supported :: "string \<Rightarrow> string" where
  "not_supported func =
     cross @ '' Function '' @ quoted func @ '' not supported. Type '' @ quoted ''help''
       @ '' for options.''"

text \<open>Lines 19-31.\<close>

definition help_text :: string where
  "help_text =
     ''Available commands:'' @ [CHR 0x0A] @
     ''- head(), tail(n), info(), describe(), shape, columns, dtypes, missing()'' @ [CHR 0x0A] @
     ''- corr(), cov()'' @ [CHR 0x0A] @
     ''- mean(col), median(col), mode(col), std(col), var(col), sum(col)'' @ [CHR 0x0A] @
     ''- max(col), min(col), count(col), unique(col), nunique(col), value_counts(col)'' @ [CHR 0x0A] @
     ''- groupby(col, agg, target)  e.g., groupby(department, mean, salary)'' @ [CHR 0x0A] @
     ''- filter(col, op, value)     ops: ==, !=, >, <, >=, <='' @ [CHR 0x0A] @
     ''- plot(col), hist(col), scatter(x, y), box(col), heatmap()'' @ [CHR 0x0A] @
     ''- help'' @ [CHR 0x0A] @
     ''Examples: describe(), mean(age), scatter(age, salary), value_counts(department)''"

subsection \<open>The column validator\<close>

text \<open>Lines 13-17: the message for the first entry that is non-empty and no column.\<close>

fun validate_columns :: "table \<Rightarrow> string list \<Rightarrow> string option" where
  "validate_columns t [] = None"
| "validate_columns t (col # cs) =
     (if col \<noteq> [] \<and> col \<notin> set (columns t) then Some (column_not_found col)
      else validate_columns t cs)"

subsection \<open>The branches of the dispatcher\<close>

definition returns :: "analyzer \<Rightarrow> string \<Rightarrow> outcome \<times> analyzer" where
  "returns self msg = (Returned (VStr msg), self)"

text \<open>Lines 48-55 and 56-63.\<close>

definition run_head :: "analyzer \<Rightarrow> string list \<Rightarrow> outcome \<times> analyzer" where
  "run_head self args =
     (case args of
        [] \<Rightarrow> (Returned (VFrame (df_head 5 (df self))), self)
      | a # rest \<Rightarrow>
          (case py_int a of
             None \<Rightarrow> returns self (cross @ '' head(n) expects integer n'')
           | Some n \<Rightarrow> (Returned (VFrame (df_head n (df self))), self)))"

definition run_tail :: "analyzer \<Rightarrow> string list \<Rightarrow> outcome \<times> analyzer" where
  "run_tail self args =
     (case args of
        [] \<Rightarrow> (Returned (VFrame (df_tail 5 (df self))), self)
      | a # rest \<Rightarrow>
          (case py_int a of
             None \<Rightarrow> returns self (cross @ '' tail(n) expects integer n'')
           | Some n \<Rightarrow> (Returned (VFrame (df_tail n (df self))), self)))"

text \<open>\<^verbatim>\<open>df.isna().sum()\<close>: the missing entries of each column.\<close>

definition missing_counts :: "table \<Rightarrow> (string \<times> nat) list" where
  "missing_counts t = map (\<lambda>(c, x). (c, length (filter (\<lambda>v. v = NaN) (cells_of x)))) (cols t)"

text \<open>Lines 84-104: the keys of \<^verbatim>\<open>single_col_funcs\<close>, and the branch.\<close>

definition single_col_funcs :: "string list" where
  "single_col_funcs =
     [''mean'', ''median'', ''mode'', ''std'', ''var'', ''sum'', ''max'', ''min'', ''count'',
      ''unique'', ''nunique'', ''value_counts'']"

definition run_single :: "analyzer \<Rightarrow> string \<Rightarrow> string list \<Rightarrow> outcome \<times> analyzer" where
  "run_single self func args =
     (if length args \<noteq> 1 then returns self (cross @ '' '' @ func @ ''(col) expects exactly one column'')
      else case validate_columns (df self) [args ! 0] of
             Some err \<Rightarrow> returns self err
           | None \<Rightarrow>
               (case getitem (df self) (args ! 0) of
                  Inl e \<Rightarrow> (Raised e, self)
                | Inr s \<Rightarrow> (Delegated (SeriesOp func s), self)))"

text \<open>Lines 106-115. \<^verbatim>\<open>self.df.groupby(group_col)[target_col]\<close> looks both labels up, the
  group column first; the reduction runs on each group.\<close>

definition agg_names :: "string list" where
  "agg_names = [''mean'', ''sum'', ''min'', ''max'', ''count'', ''median'', ''std'', ''var'']"

definition groupby_agg :: "table \<Rightarrow> string \<Rightarrow> string \<Rightarrow> string \<Rightarrow> outcome" where
  "groupby_agg t group_col agg target_col =
     (case getitem t group_col of
        Inl e \<Rightarrow> Raised e
      | Inr g \<Rightarrow>
          (case getitem t target_col of
             Inl e \<Rightarrow> Raised e
           | Inr x \<Rightarrow>
               if dtype_of x = Int64 \<or> dtype_of x = Float64 then
                 (case all_ok (map (\<lambda>k. map_sum id (Pair k)
                                          (series_agg agg (numbers (group_cells g x k))))
                                (group_keys g)) of
                    Inl e \<Rightarrow> Raised e
                  | Inr r \<Rightarrow> Returned (VGrouped r))
               else Delegated (GroupOp agg (map (\<lambda>k. (k, group_cells g x k)) (group_keys g)))))"

definition run_groupby :: "analyzer \<Rightarrow> string list \<Rightarrow> outcome \<times> analyzer" where
  "run_groupby self args =
     (if length args \<noteq> 3 then returns self (cross @ '' groupby(group_col, agg, target_col) required'')
      else let group_col = args ! 0; agg = args ! 1; target_col = args ! 2 in
        case validate_columns (df self) [group_col, target_col] of
          Some err \<Rightarrow> returns self err
        | None \<Rightarrow>
            if agg \<notin> set agg_names
            then returns self (cross @ '' Unsupported agg. Use mean,sum,min,max,count,median,std,var'')
            else (groupby_agg (df self) group_col agg target_col, self))"

text \<open>Lines 117-141. \<open>coerce\<close> is lines 125-128: \<^verbatim>\<open>float(value)\<close> when the kind of the
  column is one of \<^verbatim>\<open>"biufc"\<close> and the conversion succeeds, the raw text otherwise.
  \<open>masked\<close> is \<^verbatim>\<open>self.df[series <op> value_coerced]\<close>.\<close>

definition coerce :: "column \<Rightarrow> string \<Rightarrow> scalar" where
  "coerce series v =
     (if kind (dtype_of series) \<in> set ''biufc''
      then (case py_float v of Some x \<Rightarrow> SFloat x | None \<Rightarrow> SText v)
      else SText v)"

definition masked :: "table \<Rightarrow> exn + bool list \<Rightarrow> outcome" where
  "masked t m = (case m of Inl e \<Rightarrow> Raised e | Inr bs \<Rightarrow> Returned (VFrame (select_rows bs t)))"

definition run_filter :: "analyzer \<Rightarrow> string list \<Rightarrow> outcome \<times> analyzer" where
  "run_filter self args =
     (if length args \<noteq> 3 then returns self (cross @ '' filter(col, op, value) required'')
      else let col = args ! 0; opr = args ! 1; v = args ! 2 in
        case validate_columns (df self) [col] of
          Some err \<Rightarrow> returns self err
        | None \<Rightarrow>
            (case getitem (df self) col of
               Inl e \<Rightarrow> (Raised e, self)
             | Inr series \<Rightarrow>
                 let value_coerced = coerce series v in
                 if opr = ''=='' then (masked (df self) (series_cmp Eq series value_coerced), self)
                 else if opr = ''!='' then (masked (df self) (series_cmp Ne series value_coerced), self)
                 else if opr = ''>'' then (masked (df self) (series_cmp Gt series value_coerced), self)
                 else if opr = ''<'' then (masked (df self) (series_cmp Lt series value_coerced), self)
                 else if opr = ''>='' then (masked (df self) (series_cmp Ge series value_coerced), self)
                 else if opr = ''<='' then (masked (df self) (series_cmp Le series value_coerced), self)
                 else returns self (cross @ '' Unsupported operator. Use ==, !=, >, <, >=, <='')))"

text \<open>The chart branches, lines 143-202. \<open>render\<close> hands a chart to the display surface
  (\<^verbatim>\<open>plt.show()\<close>) and returns the confirmation.\<close>

definition render :: "analyzer \<Rightarrow> chart \<Rightarrow> string \<Rightarrow> outcome \<times> analyzer" where
  "render self c msg = (Returned (VStr msg), self\<lparr>display := display self @ [c]\<rparr>)"

definition run_plot :: "analyzer \<Rightarrow> string list \<Rightarrow> outcome \<times> analyzer" where
  "run_plot self args =
     (if length args \<noteq> 1 then returns self (cross @ '' plot(col) expects one column'')
      else case validate_columns (df self) [args ! 0] of
             Some err \<Rightarrow> returns self err
           | None \<Rightarrow>
               (case getitem (df self) (args ! 0) of
                  Inl e \<Rightarrow> (Raised e, self)
                | Inr s \<Rightarrow>
                    render self
                      \<lparr>chart_kind = ''line'', chart_data = [args ! 0],
                       chart_title = ''Plot of '' @ args ! 0, chart_xlabel = Some (args ! 0)\<rparr>
                      (bars @ '' Plot displayed for '' @ args ! 0)))"

definition run_hist :: "analyzer \<Rightarrow> string list \<Rightarrow> outcome \<times> analyzer" where
  "run_hist self args =
     (if length args \<noteq> 1 then returns self (cross @ '' hist(col) expects one column'')
      else case validate_columns (df self) [args ! 0] of
             Some err \<Rightarrow> returns self err
           | None \<Rightarrow>
               (case getitem (df self) (args ! 0) of
                  Inl e \<Rightarrow> (Raised e, self)
                | Inr s \<Rightarrow>
                    render self
                      \<lparr>chart_kind = ''hist'', chart_data = [args ! 0],
                       chart_title = ''Histogram of '' @ args ! 0, chart_xlabel = Some (args ! 0)\<rparr>
                      (bars @ '' Histogram displayed for '' @ args ! 0)))"

definition run_scatter :: "analyzer \<Rightarrow> string list \<Rightarrow> outcome \<times> analyzer" where
  "run_scatter self args =
     (if length args \<noteq> 2 then returns self (cross @ '' scatter(x, y) expects two columns'')
      else case validate_columns (df self) args of
             Some err \<Rightarrow> returns self err
           | None \<Rightarrow>
               (case getitem (df self) (args ! 0) of
                  Inl e \<Rightarrow> (Raised e, self)
                | Inr x \<Rightarrow>
                    (case getitem (df self) (args ! 1) of
                       Inl e \<Rightarrow> (Raised e, self)
                     | Inr y \<Rightarrow>
                         render self
                           \<lparr>chart_kind = ''scatter'', chart_data = [args ! 0, args ! 1],
                            chart_title = ''Scatter plot: '' @ args ! 0 @ '' vs '' @ args ! 1,
                            chart_xlabel = None\<rparr>
                           (bars @ '' Scatter plot displayed for '' @ args ! 0 @ '' vs '' @ args ! 1))))"

definition run_box :: "analyzer \<Rightarrow> string list \<Rightarrow> outcome \<times> analyzer" where
  "run_box self args =
     (if length args \<noteq> 1 then returns self (cross @ '' box(col) expects one column'')
      else case validate_columns (df self) [args ! 0] of
             Some err \<Rightarrow> returns self err
           | None \<Rightarrow>
               (case getitem (df self) (args ! 0) of
                  Inl e \<Rightarrow> (Raised e, self)
                | Inr s \<Rightarrow>
                    render self
                      \<lparr>chart_kind = ''box'', chart_data = [args ! 0],
                       chart_title = ''Box plot of '' @ args ! 0, chart_xlabel = None\<rparr>
                      (bars @ '' Box plot displayed for '' @ args ! 0)))"

text \<open>The heat map is drawn over \<^verbatim>\<open>df.corr(numeric_only=True)\<close>, whose labels are the
  numeric columns.\<close>

definition numeric_columns :: "table \<Rightarrow> string list" where
  "numeric_columns t = map fst (filter (\<lambda>(c, x). dtype_of x \<noteq> Object) (cols t))"

definition run_heatmap :: "analyzer \<Rightarrow> outcome \<times> analyzer" where
  "run_heatmap self =
     render self
       \<lparr>chart_kind = ''heatmap'', chart_data = numeric_columns (df self),
        chart_title = ''Correlation heatmap'', chart_xlabel = None\<rparr>
       (bars @ '' Heatmap displayed'')"

subsection \<open>The dispatcher\<close>

text \<open>Lines 48-204, after the command is parsed.\<close>

definition dispatch :: "analyzer \<Rightarrow> string \<Rightarrow> string list \<Rightarrow> outcome \<times> analyzer" where
  "dispatch self func args =
     (if func = ''head'' then run_head self args
      else if func = ''tail'' then run_tail self args
      else if func = ''info'' then (Delegated (FrameOp ''info'' (df self)), self)
      else if func = ''describe'' then (Delegated (FrameOp ''describe'' (df self)), self)
      else if func = ''shape'' then
        (Returned (VShape (nrows (df self)) (length (cols (df self)))), self)
      else if func = ''columns'' then (Returned (VNames (columns (df self))), self)
      else if func = ''dtypes'' then
        (Returned (VDtypes (map (\<lambda>(c, x). (c, dtype_of x)) (cols (df self)))), self)
      else if func = ''missing'' then (Returned (VCounts (missing_counts (df self))), self)
      else if func = ''corr'' then (Delegated (FrameOp ''corr'' (df self)), self)
      else if func = ''cov'' then (Delegated (FrameOp ''cov'' (df self)), self)
      else if func \<in> set single_col_funcs then run_single self func args
      else if func = ''groupby'' then run_groupby self args
      else if func = ''filter'' then run_filter self args
      else if func = ''plot'' then run_plot self args
      else if func = ''hist'' then run_hist self args
      else if func = ''scatter'' then run_scatter self args
      else if func = ''box'' then run_box self args
      else if func = ''heatmap'' then run_heatmap self
      else returns self (not_supported func))"

text \<open>Lines 33-46: trimming, the two special cases, the grammar.\<close>

definition parse :: "string \<Rightarrow> (string \<times> string list) option" where
  "parse command = map_option (\<lambda>(func, argstr). (func, parse_args argstr)) (re_match command)"

definition run :: "analyzer \<Rightarrow> string \<Rightarrow> outcome \<times> analyzer" where
  "run self line =
     (let command = strip line in
      if command = [] then returns self (cross @ '' Empty command'')
      else if command = ''help'' then returns self help_text
      else case parse command of
             None \<Rightarrow> returns self (cross @ '' Invalid command: '' @ command)
           | Some (func, args) \<Rightarrow> dispatch self func args)"

subsection \<open>The example of the specification\<close>

text \<open>Columns \<^verbatim>\<open>department,salary\<close>, rows \<^verbatim>\<open>(eng,100),(eng,200),(sales,50)\<close>.\<close>

definition example_table :: table where
  "example_table =
     \<lparr>index = [0, 1, 2],
      cols = [(''department'', ObjCol [Some ''eng'', Some ''eng'', Some ''sales'']),
              (''salary'', IntCol [100, 200, 50])]\<rparr>"

definition example :: analyzer where
  "example = \<lparr>df = example_table, display = []\<rparr>"

subsection \<open>Views of the table and of the dispatcher used in the statements\<close>



text \<open>The rows of a table, each with its label and its entries by column name (what
  \<^verbatim>\<open>df.to_dict("records")\<close> lists). A table is well formed when every column has one
  entry for each label of the index.\<close>

definition cell_at :: "column \<Rightarrow> nat \<Rightarrow> cell" where
  "cell_at x i = (if i < length (cells_of x) then cells_of x ! i else NaN)"

definition records :: "table \<Rightarrow> (nat \<times> (string \<times> cell) list) list" where
  "records t = map (\<lambda>i. (index t ! i, map (\<lambda>(c, x). (c, cell_at x i)) (cols t))) [0..<nrows t]"


definition wf_table :: "table \<Rightarrow> bool" where
  "wf_table t = list_all (\<lambda>(c, x). length (cells_of x) = nrows t) (cols t)"

text \<open>The names and storage types of the columns.\<close>

definition schema :: "table \<Rightarrow> (string \<times> dtype) list" where
  "schema t = map (\<lambda>(c, x). (c, dtype_of x)) (cols t)"


text \<open>The first entry the validator reports: non-empty and no column of the table.\<close>

definition first_missing :: "table \<Rightarrow> string list \<Rightarrow> string option" where
  "first_missing t cs = find (\<lambda>c. c \<noteq> [] \<and> c \<notin> set (columns t)) cs"

text \<open>The comparison each admitted operator stands for, as the tests of lines 129-140
  pair them.\<close>

definition cmpop_of :: "string \<Rightarrow> cmpop option" where
  "cmpop_of opr =
     (if opr = ''=='' then Some Eq
      else if opr = ''!='' then Some Ne
      else if opr = ''>'' then Some Gt
      else if opr = ''<'' then Some Lt
      else if opr = ''>='' then Some Ge
      else if opr = ''<='' then Some Le
      else None)"

text \<open>The rows of the example with a salary above 75: what \<^verbatim>\<open>filter(salary, >, 75)\<close> keeps.\<close>

definition example_above_75 :: table where
  "example_above_75 =
     \<lparr>index = [0, 1],
      cols = [(''department'', ObjCol [Some ''eng'', Some ''eng'']),
              (''salary'', IntCol [100, 200])]\<rparr>"

section \<open>Properties\<close>

subsection \<open>Parsing and dispatch\<close>

lemmas text_defs = strip_def isspace_def isword_def isdigit_def digit_val_def lower_def
  re_match_def parse_def parse_args_def

lemma parse_Nil: "parse [] = None"
  by (simp add: parse_def re_match_def)

lemma parse_help: "parse ''help'' = Some (''help'', [])"
  by (simp add: parse_def re_match_def isword_def parse_args_def)

lemma run_dispatch:
  assumes "parse (strip line) = Some (f, args)" and "strip line \<noteq> ''help''"
  shows "run self line = dispatch self f args"
proof -
  have "strip line \<noteq> []" using assms(1) parse_Nil by auto
  then show ?thesis using assms by (simp add: run_def)
qed

subsection \<open>The table is never written\<close>

lemma df_returns: "df (snd (returns self m)) = df self"
  by (simp add: returns_def)

lemma df_run_head: "df (snd (run_head self args)) = df self"
  by (simp add: run_head_def returns_def split: list.splits option.splits)

lemma df_run_tail: "df (snd (run_tail self args)) = df self"
  by (simp add: run_tail_def returns_def split: list.splits option.splits)

lemma df_run_single: "df (snd (run_single self f args)) = df self"
  by (simp add: run_single_def returns_def split: option.splits sum.splits)

lemma df_run_groupby: "df (snd (run_groupby self args)) = df self"
  by (simp add: run_groupby_def returns_def Let_def split: option.splits)

lemma df_run_filter: "df (snd (run_filter self args)) = df self"
  by (simp add: run_filter_def returns_def Let_def split: option.splits sum.splits)

lemma df_run_plot: "df (snd (run_plot self args)) = df self"
  by (simp add: run_plot_def returns_def render_def split: option.splits sum.splits)

lemma df_run_hist: "df (snd (run_hist self args)) = df self"
  by (simp add: run_hist_def returns_def render_def split: option.splits sum.splits)

lemma df_run_scatter: "df (snd (run_scatter self args)) = df self"
  by (simp add: run_scatter_def returns_def render_def split: option.splits sum.splits)

lemma df_run_box: "df (snd (run_box self args)) = df self"
  by (simp add: run_box_def returns_def render_def split: option.splits sum.splits)

lemma df_run_heatmap: "df (snd (run_heatmap self)) = df self"
  by (simp add: run_heatmap_def render_def)

lemma df_dispatch: "df (snd (dispatch self f args)) = df self"
  unfolding dispatch_def
  by (simp add: df_returns df_run_head df_run_tail df_run_single df_run_groupby df_run_filter
      df_run_plot df_run_hist df_run_scatter df_run_box df_run_heatmap)

text \<open>
  Claim C7. No command writes the loaded table: whatever the command line, the table of
  the analyzer after \<^verbatim>\<open>run\<close> is the table before it, index, columns and entries. A filter
  hands back a table of its own and leaves the loaded one as it was.
\<close>

theorem table_never_mutated: "df (snd (run self line)) = df self"
  by (simp add: run_def Let_def df_returns df_dispatch split: option.splits)

theorem table_never_mutated_witness:
  "df (snd (run example ''filter(salary, >, 75)'')) = example_table
   \<and> df (snd (run example ''scatter(salary, salary)'')) = example_table"
  using table_never_mutated [of example "''filter(salary, >, 75)''"]
    table_never_mutated [of example "''scatter(salary, salary)''"]
  by (simp add: example_def)

subsection \<open>Unknown functions\<close>



subsection \<open>The help text\<close>





lemma returns_not_help: "m \<noteq> help_text \<Longrightarrow> fst (returns self m) \<noteq> Returned (VStr help_text)"
  by (simp add: returns_def)

lemma render_not_help: "m \<noteq> help_text \<Longrightarrow> fst (render self c m) \<noteq> Returned (VStr help_text)"
  by (simp add: render_def)

















subsection \<open>Rows of a slice\<close>













lemma run_dispatch_named:
  assumes "parse (strip line) = Some (func, args)" and "func \<noteq> ''help''"
  shows "run self line = dispatch self func args"
proof -
  have "strip line \<noteq> ''help''" using assms parse_help by auto
  with assms(1) show ?thesis by (rule run_dispatch)
qed


subsection \<open>Head and tail\<close>





subsection \<open>The validator and the branches that call it\<close>



lemma first_missing_None:
  "first_missing t cs = None \<longleftrightarrow> (\<forall>c \<in> set cs. c = [] \<or> c \<in> set (columns t))"
  by (auto simp: first_missing_def find_None_iff)


lemma getitem_missing:
  assumes "c \<notin> set (columns t)"
  shows "getitem t c = Inl (KeyError c)"
proof -
  from assms have "map_of (cols t) c = None"
    by (simp add: columns_def map_of_eq_None_iff)
  then show ?thesis by (simp add: getitem_def)
qed




lemma dispatch_filter: "dispatch self ''filter'' args = run_filter self args"
  by (simp add: dispatch_def single_col_funcs_def)









lemmas example_defs = example_def example_table_def columns_def



subsection \<open>Scatter\<close>




subsection \<open>The recognised failure modes\<close>








subsection \<open>Rows of a selection\<close>

lemma select_map: "select m (map f xs) = map f (select m xs)"
proof -
  have "zip m (map f xs) = map (\<lambda>(b, x). (b, f x)) (zip m xs)"
    by (simp add: zip_map2 split_def)
  then show ?thesis
    by (simp add: select_def filter_map comp_def split_def)
qed

lemma select_positions: "select m xs = map ((!) xs) (select m [0..<length xs])"
proof -
  have "select m xs = select m (map ((!) xs) [0..<length xs])"
    by (simp add: map_nth)
  then show ?thesis by (simp only: select_map)
qed

lemma set_select: "set (select m xs) \<subseteq> set xs"
  by (auto simp: select_def dest: set_zip_rightD)

lemma select_predicate: "select (map p xs) xs = filter p xs"
  by (induction xs) (simp_all add: select_def)

lemma cells_of_col_select: "cells_of (col_select m x) = select m (cells_of x)"
  by (cases x) (simp_all add: select_map)

lemma dtype_of_col_select: "dtype_of (col_select m x) = dtype_of x"
  by (cases x) simp_all

lemma schema_select_rows: "schema (select_rows m t) = schema t"
  by (simp add: schema_def select_rows_def dtype_of_col_select split_def)

lemma columns_select_rows: "columns (select_rows m t) = columns t"
  by (simp add: columns_def select_rows_def split_def comp_def)

lemma wf_column_length:
  assumes "wf_table t" and "(c, x) \<in> set (cols t)"
  shows "length (cells_of x) = nrows t"
  using assms by (auto simp: wf_table_def list_all_iff)

lemma records_select_rows:
  assumes wf: "wf_table t"
  shows "records (select_rows m t) = select m (records t)"
proof -
  let ?n = "nrows t"
  let ?ps = "select m [0..<?n]"
  let ?row = "\<lambda>i. (index t ! i, map (\<lambda>(c, x). (c, cell_at x i)) (cols t))"
  have idx: "select m (index t) = map ((!) (index t)) ?ps"
    using select_positions [of m "index t"] by (simp add: nrows_def)
  have ps: "\<And>j. j < length ?ps \<Longrightarrow> ?ps ! j < ?n"
    using set_select [of m "[0..<?n]"] nth_mem by fastforce
  have cell: "cell_at (col_select m x) j = cell_at x (?ps ! j)"
    if "(c, x) \<in> set (cols t)" and "j < length ?ps" for c x j
  proof -
    have len: "length (cells_of x) = ?n" using wf that(1) by (rule wf_column_length)
    then have "select m (cells_of x) = map ((!) (cells_of x)) ?ps"
      using select_positions [of m "cells_of x"] by simp
    with that(2) ps [OF that(2)] len show ?thesis
      by (simp add: cell_at_def cells_of_col_select)
  qed
  have "records (select_rows m t) = map (\<lambda>j. ?row (?ps ! j)) [0..<length ?ps]"
    unfolding records_def
  proof (rule map_cong)
    show "[0..<nrows (select_rows m t)] = [0..<length ?ps]"
      by (simp add: nrows_def select_rows_def idx)
  next
    fix j
    assume "j \<in> set [0..<length ?ps]"
    then have j: "j < length ?ps" by simp
    have "map (\<lambda>(c, x). (c, cell_at x j)) (cols (select_rows m t))
        = map (\<lambda>(c, x). (c, cell_at x (?ps ! j))) (cols t)"
      using cell j by (auto simp: select_rows_def split_def)
    with j show "(index (select_rows m t) ! j,
          map (\<lambda>(c, x). (c, cell_at x j)) (cols (select_rows m t))) = ?row (?ps ! j)"
      by (simp add: select_rows_def idx)
  qed
  also have "\<dots> = map ?row ?ps"
    by (rule nth_equalityI) simp_all
  also have "\<dots> = select m (records t)"
    by (simp add: records_def select_map)
  finally show ?thesis .
qed

lemma map_of_map_values:
  "map_of (map (\<lambda>(k, v). (k, f v)) xs) k = map_option f (map_of xs k)"
  by (induction xs) auto




subsection \<open>The filter\<close>

lemma numeric_kind: "kind (dtype_of s) \<in> set ''biufc'' \<longleftrightarrow> dtype_of s \<noteq> Object"
  by (cases s) simp_all

lemma coerce_cases:
  "coerce s v = (if dtype_of s \<noteq> Object
                 then (case py_float v of Some x \<Rightarrow> SFloat x | None \<Rightarrow> SText v)
                 else SText v)"
  unfolding coerce_def numeric_kind by simp



lemma run_filter_mask:
  assumes "map_of (cols (df self)) col = Some s" and "cmpop_of opr = Some cmp"
  shows "run_filter self [col, opr, v] = (masked (df self) (series_cmp cmp s (coerce s v)), self)"
proof -
  from assms(1) have c: "col \<in> set (columns (df self))"
    by (auto simp: columns_def dest: map_of_SomeD intro: rev_image_eqI)
  from assms(1) have g: "getitem (df self) col = Inr s"
    by (simp add: getitem_def)
  from assms(2) show ?thesis
    by (auto simp: run_filter_def Let_def c g cmpop_of_def split: if_splits)
qed





lemmas float_defs = py_float_def unsigned_float_def decimal_def exponent_def digitpart_def





subsection \<open>Filtering twice\<close>

lemma length_select_le: "length (select m ys) \<le> length (filter id m)"
proof (induction m arbitrary: ys)
  case Nil
  then show ?case by (simp add: select_def)
next
  case (Cons b m)
  show ?case
  proof (cases ys)
    case Nil
    then show ?thesis by (simp add: select_def)
  next
    case (Cons y ys')
    with Cons.IH [of ys'] show ?thesis by (simp add: select_def)
  qed
qed

lemma select_all_True:
  assumes "\<forall>b \<in> set m. b" and "length ys \<le> length m"
  shows "select m ys = ys"
  using assms
proof (induction m arbitrary: ys)
  case Nil
  then show ?case by (simp add: select_def)
next
  case (Cons b m)
  show ?case
  proof (cases ys)
    case Nil
    then show ?thesis by (simp add: select_def)
  next
    case (Cons y ys')
    with Cons.prems have "\<forall>b \<in> set m. b" and "length ys' \<le> length m" and b by auto
    with Cons.IH [of ys'] Cons show ?thesis by (simp add: select_def)
  qed
qed

lemma subseq_select: "subseq (select m xs) xs"
proof (induction m arbitrary: xs)
  case Nil
  then show ?case by (simp add: select_def)
next
  case (Cons b m)
  show ?case
  proof (cases xs)
    case Nil
    then show ?thesis by (simp add: select_def)
  next
    case (Cons x xs')
    have "subseq (select m xs') xs'" by (rule Cons.IH)
    then show ?thesis
      using Cons by (cases b) (auto simp: select_def intro: list_emb_Cons)
  qed
qed

text \<open>The mask of a predicate, taken again on what the mask kept, holds everywhere and
  is as long as what any list kept.\<close>

lemma select_again:
  "select (map p (select (map p xs) xs)) (select (map p xs) ys) = select (map p xs) ys"
proof (rule select_all_True)
  show "\<forall>b \<in> set (map p (select (map p xs) xs)). b"
    by (simp add: select_predicate)
next
  have "length (select (map p xs) ys) \<le> length (filter id (map p xs))"
    by (rule length_select_le)
  also have "\<dots> = length (filter p xs)"
    by (simp add: filter_map comp_def)
  finally show "length (select (map p xs) ys) \<le> length (map p (select (map p xs) xs))"
    by (simp add: select_predicate)
qed

lemma col_select_again:
  assumes "m = map p xs" and "m' = map p (select m xs)"
  shows "col_select m' (col_select m x) = col_select m x"
  using assms by (cases x) (simp_all add: select_again)

lemma select_rows_again:
  assumes "m = map p xs" and "m' = map p (select m xs)"
  shows "select_rows m' (select_rows m t) = select_rows m t"
  using assms
  by (simp add: select_rows_def select_again col_select_again [OF refl refl] split_def comp_def)

lemma map_of_select_rows:
  "map_of (cols (select_rows m t)) c = map_option (col_select m) (map_of (cols t) c)"
  by (simp add: select_rows_def map_of_map_values)

lemma coerce_col_select: "coerce (col_select m s) v = coerce s v"
  by (simp add: coerce_def dtype_of_col_select)

lemma series_cmp_cases:
  "series_cmp cmp s (coerce s v)
    = (if cmp \<noteq> Eq \<and> cmp \<noteq> Ne \<and> dtype_of s \<noteq> Object \<and> py_float v = None then Inl TypeError
       else Inr (map (\<lambda>c. cell_cmp cmp c (coerce s v)) (cells_of s)))"
  by (auto simp: series_cmp_def coerce_cases split: option.splits)

text \<open>What a filter that hands back a table has gone through.\<close>

lemma run_filter_frame:
  assumes "run_filter self args = (Returned (VFrame t'), self')"
  obtains col opr v s cmp where "args = [col, opr, v]"
    and "map_of (cols (df self)) col = Some s" and "cmpop_of opr = Some cmp"
    and "series_cmp cmp s (coerce s v) = Inr (map (\<lambda>c. cell_cmp cmp c (coerce s v)) (cells_of s))"
    and "t' = select_rows (map (\<lambda>c. cell_cmp cmp c (coerce s v)) (cells_of s)) (df self)"
    and "self' = self"
proof -
  have len: "length args = 3"
    using assms by (auto simp: run_filter_def returns_def split: if_splits)
  then obtain col opr v where args: "args = [col, opr, v]"
    by (auto simp: numeral_3_eq_3 length_Suc_conv)
  have val: "validate_columns (df self) [col] = None"
  proof (cases "validate_columns (df self) [col]")
    case None
    then show ?thesis .
  next
    case (Some e)
    with assms args show ?thesis
      by (simp add: run_filter_def returns_def Let_def del: validate_columns.simps)
  qed
  obtain s where g: "getitem (df self) col = Inr s"
  proof (cases "getitem (df self) col")
    case (Inl e)
    with assms args val show ?thesis
      by (simp add: run_filter_def Let_def del: validate_columns.simps)
  next
    case (Inr s)
    then show ?thesis by (rule that)
  qed
  then have s: "map_of (cols (df self)) col = Some s"
    by (auto simp: getitem_def split: option.splits)
  obtain cmp where c: "cmpop_of opr = Some cmp"
  proof (cases "cmpop_of opr")
    case None
    then have "opr \<noteq> ''=='' \<and> opr \<noteq> ''!='' \<and> opr \<noteq> ''>'' \<and> opr \<noteq> ''<''
        \<and> opr \<noteq> ''>='' \<and> opr \<noteq> ''<=''"
      by (simp add: cmpop_of_def split: if_splits)
    with assms args val g show ?thesis
      by (simp add: run_filter_def returns_def Let_def del: validate_columns.simps)
  next
    case (Some cmp)
    then show ?thesis by (rule that)
  qed
  have r: "run_filter self args = (masked (df self) (series_cmp cmp s (coerce s v)), self)"
    using s c by (simp add: args run_filter_mask)
  with assms have ok: "series_cmp cmp s (coerce s v)
      = Inr (map (\<lambda>c. cell_cmp cmp c (coerce s v)) (cells_of s))"
    by (auto simp: masked_def series_cmp_cases split: if_splits)
  with assms r have "t' = select_rows (map (\<lambda>c. cell_cmp cmp c (coerce s v)) (cells_of s)) (df self)"
    and "self' = self"
    by (auto simp: masked_def)
  with args s c ok show ?thesis by (rule that)
qed

text \<open>
  Claim C6. Filtering is idempotent: whenever a \<^verbatim>\<open>filter\<close> command hands back a table (so
  its column is a column of the loaded table and its operator one of the six), the same
  command run on that table hands back the very same table, labels, columns and
  entries. The table it hands back has the columns and storage types of the loaded
  one and its rows in their order: its row labels are a subsequence of the loaded
  ones, and so are its rows when the loaded table is well formed.
\<close>

theorem filter_idempotent:
  assumes "parse (strip line) = Some (''filter'', args)"
    and "run self line = (Returned (VFrame t'), self')"
  shows "run (self\<lparr>df := t'\<rparr>) line = (Returned (VFrame t'), self\<lparr>df := t'\<rparr>)
    \<and> self' = self
    \<and> schema t' = schema (df self)
    \<and> subseq (index t') (index (df self))
    \<and> (wf_table (df self) \<longrightarrow> subseq (records t') (records (df self)))"
proof -
  have d: "run a line = run_filter a args" for a
    using run_dispatch_named [OF assms(1)] by (simp add: dispatch_filter)
  from assms(2) have "run_filter self args = (Returned (VFrame t'), self')"
    by (simp add: d)
  then obtain col opr v s cmp where args: "args = [col, opr, v]"
    and s: "map_of (cols (df self)) col = Some s" and c: "cmpop_of opr = Some cmp"
    and ok: "series_cmp cmp s (coerce s v)
      = Inr (map (\<lambda>c. cell_cmp cmp c (coerce s v)) (cells_of s))"
    and t': "t' = select_rows (map (\<lambda>c. cell_cmp cmp c (coerce s v)) (cells_of s)) (df self)"
    and self': "self' = self"
    by (rule run_filter_frame)
  let ?p = "\<lambda>c. cell_cmp cmp c (coerce s v)"
  let ?m = "map ?p (cells_of s)"
  let ?s' = "col_select ?m s"
  have s': "map_of (cols (df (self\<lparr>df := t'\<rparr>))) col = Some ?s'"
    by (simp add: t' map_of_select_rows s)
  have ok': "series_cmp cmp ?s' (coerce ?s' v) = Inr (map ?p (select ?m (cells_of s)))"
  proof -
    have "\<not> (cmp \<noteq> Eq \<and> cmp \<noteq> Ne \<and> dtype_of s \<noteq> Object \<and> py_float v = None)"
      using ok by (simp add: series_cmp_cases split: if_splits)
    then have "series_cmp cmp ?s' (coerce ?s' v)
        = Inr (map (\<lambda>c. cell_cmp cmp c (coerce ?s' v)) (cells_of ?s'))"
      unfolding series_cmp_cases [of cmp ?s' v] by (simp add: dtype_of_col_select)
    then show ?thesis
      by (simp add: coerce_col_select cells_of_col_select)
  qed
  have "run (self\<lparr>df := t'\<rparr>) line
      = (masked t' (series_cmp cmp ?s' (coerce ?s' v)), self\<lparr>df := t'\<rparr>)"
    using run_filter_mask [OF s' c] by (simp add: d args)
  also have "\<dots> = (Returned (VFrame (select_rows (map ?p (select ?m (cells_of s))) t')),
      self\<lparr>df := t'\<rparr>)"
    by (simp add: ok' masked_def)
  also have "select_rows (map ?p (select ?m (cells_of s))) t' = t'"
    unfolding t' by (rule select_rows_again [OF refl refl])
  finally have again: "run (self\<lparr>df := t'\<rparr>) line = (Returned (VFrame t'), self\<lparr>df := t'\<rparr>)" .
  have "subseq (index t') (index (df self))"
    by (simp add: t' select_rows_def subseq_select)
  moreover have "subseq (records t') (records (df self))" if "wf_table (df self)"
    using that by (simp add: t' records_select_rows subseq_select)
  ultimately show ?thesis
    using again self' by (simp add: t' schema_select_rows)
qed

theorem filter_idempotent_witness:
  "run example ''filter(salary, >, 75)'' = (Returned (VFrame example_above_75), example)
   \<and> run (example\<lparr>df := example_above_75\<rparr>) ''filter(salary, >, 75)''
       = (Returned (VFrame example_above_75), example\<lparr>df := example_above_75\<rparr>)
   \<and> subseq (index example_above_75) (index (df example))"
proof -
  have p: "parse (strip ''filter(salary, >, 75)'') = Some (''filter'', [''salary'', ''>'', ''75''])"
    by (simp add: text_defs)
  have r: "run example ''filter(salary, >, 75)'' = (Returned (VFrame example_above_75), example)"
    by (simp add: run_def text_defs float_defs dispatch_def single_col_funcs_def run_filter_def
        getitem_def coerce_def series_cmp_def masked_def select_rows_def select_def
        Let_def example_defs example_above_75_def)
  from filter_idempotent [OF p r] r show ?thesis by simp
qed

subsection \<open>Grouped aggregation\<close>















end
